theory Spec2Isabelle
  imports Complex_Main "HOL-Library.Log_Nat"
begin

section \<open>Values of the program\<close>

text \<open>
  The nutrition model of wger (\<^verbatim>\<open>wger/nutrition/models/ingredient.py\<close>) computes with
  Python's \<^verbatim>\<open>decimal.Decimal\<close>. A finite Decimal is a signed coefficient and an exponent of
  ten; \<^verbatim>\<open>Decimal('5.000')\<close> is coefficient 5000 with exponent -3. Arithmetic is exact as long
  as a result has at most 28 significant digits (the default context precision); the fields
  of the model are declared with \<^verbatim>\<open>max_digits=6\<close>, far below that, so no rounding is
  modelled. NaN, the infinities and the negative zero are not values of a DecimalField and are
  left out.
\<close>

datatype decimal = Decimal (coefficient: int) (exponent: int)

definition dec_val :: "decimal \<Rightarrow> rat" where
  "dec_val d = of_int (coefficient d) * power_int 10 (exponent d)"

text \<open>\<^verbatim>\<open>Decimal(n)\<close> for an int, which is also how an int operand of a Decimal operator is
  converted.\<close>

definition dec_of_int :: "int \<Rightarrow> decimal" where
  "dec_of_int n = Decimal n 0"

text \<open>\<^verbatim>\<open>a + b\<close>: the exponent of the result is the smaller exponent.\<close>

definition dec_add :: "decimal \<Rightarrow> decimal \<Rightarrow> decimal" where
  "dec_add a b =
     (let e = min (exponent a) (exponent b)
      in Decimal (coefficient a * 10 ^ nat (exponent a - e)
                  + coefficient b * 10 ^ nat (exponent b - e)) e)"

text \<open>\<^verbatim>\<open>a - b\<close>.\<close>

definition dec_sub :: "decimal \<Rightarrow> decimal \<Rightarrow> decimal" where
  "dec_sub a b = dec_add a (Decimal (- coefficient b) (exponent b))"

text \<open>\<^verbatim>\<open>a * b\<close>: coefficients multiply, exponents add.\<close>

definition dec_mul :: "decimal \<Rightarrow> decimal \<Rightarrow> decimal" where
  "dec_mul a b = Decimal (coefficient a * coefficient b) (exponent a + exponent b)"

text \<open>\<^verbatim>\<open>n / Decimal(100.0)\<close> for an int \<open>n\<close>: the quotient is exact with two decimal
  places, and division drops the trailing zeros it does not need (the ideal exponent is 0).\<close>

definition dec_div_100 :: "int \<Rightarrow> decimal" where
  "dec_div_100 n =
     (if n mod 100 = 0 then Decimal (n div 100) 0
      else if n mod 10 = 0 then Decimal (n div 10) (- 1)
      else Decimal n (- 2))"

text \<open>Comparison of two Decimals is by numeric value.\<close>

definition dec_less :: "decimal \<Rightarrow> decimal \<Rightarrow> bool" where
  "dec_less a b = (dec_val a < dec_val b)"

definition dec_eq :: "decimal \<Rightarrow> decimal \<Rightarrow> bool" where
  "dec_eq a b = (dec_val a = dec_val b)"

text \<open>Truth value of an optional Decimal field: \<^verbatim>\<open>None\<close> and zero are false.\<close>

fun truthy_dec :: "decimal option \<Rightarrow> bool" where
  "truthy_dec None = False"
| "truthy_dec (Some d) = (coefficient d \<noteq> 0)"

text \<open>Truth value of an optional int field.\<close>

fun truthy_int :: "int option \<Rightarrow> bool" where
  "truthy_int None = False"
| "truthy_int (Some n) = (n \<noteq> 0)"

subsection \<open>Printing numbers\<close>

definition digit_char :: "nat \<Rightarrow> char" where
  "digit_char d = char_of (48 + d)"

function str_nat :: "nat \<Rightarrow> string" where
  "str_nat n = (if n < 10 then [digit_char n] else str_nat (n div 10) @ [digit_char (n mod 10)])"
  by pat_completeness auto
termination
  by (relation "measure (\<lambda>n. n)") auto

declare str_nat.simps [simp del]

text \<open>\<^verbatim>\<open>str(n)\<close> for an int.\<close>

definition str_int :: "int \<Rightarrow> string" where
  "str_int n = (if n < 0 then ''-'' @ str_nat (nat (- n)) else str_nat (nat n))"

text \<open>\<^verbatim>\<open>"%+d" % n\<close>: the sign is always printed.\<close>

definition str_int_signed :: "int \<Rightarrow> string" where
  "str_int_signed n = (if n < 0 then ''-'' @ str_nat (nat (- n)) else ''+'' @ str_nat (nat n))"

text \<open>
  \<^verbatim>\<open>str(d)\<close> for a Decimal, which is also what \<^verbatim>\<open>'{x}'.format(x=d)\<close> prints: plain notation
  when the exponent is at most 0 and the number is not too small, scientific notation
  otherwise.
\<close>

definition str_decimal :: "decimal \<Rightarrow> string" where
  "str_decimal d =
     (let sign = (if coefficient d < 0 then ''-'' else '''');
          digits = str_nat (nat \<bar>coefficient d\<bar>);
          len = int (length digits);
          leftdigits = exponent d + len;
          dotplace = (if exponent d \<le> 0 \<and> leftdigits > - 6 then leftdigits else 1);
          intpart =
            (if dotplace \<le> 0 then ''0''
             else if dotplace \<ge> len then digits @ replicate (nat (dotplace - len)) CHR ''0''
             else take (nat dotplace) digits);
          fracpart =
            (if dotplace \<le> 0 then ''.'' @ replicate (nat (- dotplace)) CHR ''0'' @ digits
             else if dotplace \<ge> len then ''''
             else ''.'' @ drop (nat dotplace) digits);
          exp = (if leftdigits = dotplace then ''''
                 else ''E'' @ str_int_signed (leftdigits - dotplace))
      in sign @ intpart @ fracpart @ exp)"

section \<open>The ingredient\<close>

text \<open>
  The fields of \<^verbatim>\<open>Ingredient\<close> that the methods below read or write. A field that may hold
  \<^verbatim>\<open>None\<close> on an instance (a nullable column, or a field whose own validation failed before
  \<^verbatim>\<open>clean\<close> runs) is an option. \<^verbatim>\<open>pk\<close> is the primary key \<^verbatim>\<open>id\<close>, \<^verbatim>\<open>None\<close> until the instance
  is stored.
\<close>

datatype submission_status = STATUS_PENDING | STATUS_ACCEPTED | STATUS_DECLINED

record ingredient =
  pk :: "int option"
  uuid :: string
  name :: "string option"
  energy :: "int option"
  protein :: "decimal option"
  carbohydrates :: "decimal option"
  carbohydrates_sugar :: "decimal option"
  fat :: "decimal option"
  fat_saturated :: "decimal option"
  fibres :: "decimal option"
  sodium :: "decimal option"
  code :: "string option"
  common_name :: "string option"
  status :: submission_status
  license_author :: "string option"

text \<open>
  The exceptions that can leave the modelled functions. \<^verbatim>\<open>ExternalError\<close> stands for a failure
  of a collaborator outside the repository that the code does not catch (the database, the
  network, the mail transport).
\<close>

datatype error =
    ValidationError string
  | KeyError
  | TypeError
  | NoReverseMatch
  | OverflowError
  | InvalidOperation
  | ExternalError string

section \<open>\<^verbatim>\<open>Ingredient.clean\<close>\<close>

text \<open>
  Modelled from the spec: \<^verbatim>\<open>ENERGY_FACTOR\<close> of \<^verbatim>\<open>wger.nutrition.consts\<close>, whose \<^verbatim>\<open>'kg'\<close>
  entries are the energy in kcal of one gram: protein 4, carbohydrates 4, fat 9.
\<close>

definition ENERGY_FACTOR_protein :: int where "ENERGY_FACTOR_protein = 4"
definition ENERGY_FACTOR_carbohydrates :: int where "ENERGY_FACTOR_carbohydrates = 4"
definition ENERGY_FACTOR_fat :: int where "ENERGY_FACTOR_fat = 9"

definition ENERGY_APPROXIMATION :: int where "ENERGY_APPROXIMATION = 15"

text \<open>The energy of one macronutrient: 0 when the field is \<^verbatim>\<open>None\<close> or zero, else the
  amount times the factor.\<close>

definition energy_of :: "decimal option \<Rightarrow> int \<Rightarrow> decimal" where
  "energy_of x factor =
     (case x of
        None \<Rightarrow> dec_of_int 0
      | Some d \<Rightarrow> if truthy_dec x then dec_mul d (dec_of_int factor) else dec_of_int 0)"

definition energy_calculated :: "ingredient \<Rightarrow> decimal" where
  "energy_calculated r =
     dec_add (dec_add (energy_of (protein r) ENERGY_FACTOR_protein)
                      (energy_of (carbohydrates r) ENERGY_FACTOR_carbohydrates))
             (energy_of (fat r) ENERGY_FACTOR_fat)"

definition energy_upper :: "int \<Rightarrow> decimal" where
  "energy_upper e =
     dec_mul (dec_of_int e) (dec_add (dec_of_int 1) (dec_div_100 ENERGY_APPROXIMATION))"

definition energy_lower :: "int \<Rightarrow> decimal" where
  "energy_lower e =
     dec_mul (dec_of_int e) (dec_sub (dec_of_int 1) (dec_div_100 ENERGY_APPROXIMATION))"

definition clean_message :: "int \<Rightarrow> decimal \<Rightarrow> int \<Rightarrow> string" where
  "clean_message e calc approx =
     ''The total energy ('' @ str_int e @ ''kcal) is not the approximate sum of the ''
     @ ''energy provided by protein, carbohydrates and fat ('' @ str_decimal calc @ ''kcal ''
     @ ''+/-'' @ str_int approx @ ''%)''"

definition clean :: "ingredient \<Rightarrow> error + unit" where
  "clean r =
     (let calc = energy_calculated r
      in case energy r of
           None \<Rightarrow> Inr ()
         | Some e \<Rightarrow>
             if truthy_int (energy r) then
               (if \<not> (dec_less calc (energy_upper e) \<and> dec_less (energy_lower e) calc)
                then Inl (ValidationError (clean_message e calc ENERGY_APPROXIMATION))
                else Inr ())
             else Inr ())"

section \<open>\<^verbatim>\<open>Ingredient.save\<close>\<close>

text \<open>
  The process-wide state the model writes to: the database behind the ORM, left abstract, and
  Django's cache, a map from keys to cached objects. A lookup that yields \<open>None\<close> is a miss.
\<close>

record ('db, 'v) world =
  db :: 'db
  cache :: "string \<rightharpoonup> 'v"

definition cache_get :: "string \<Rightarrow> (string \<rightharpoonup> 'v) \<Rightarrow> 'v option" where
  "cache_get k c = c k"

definition cache_delete :: "string \<Rightarrow> (string \<rightharpoonup> 'v) \<Rightarrow> (string \<rightharpoonup> 'v)" where
  "cache_delete k c = c(k := None)"

text \<open>
  \<^verbatim>\<open>save\<close> calls the inherited \<^verbatim>\<open>models.Model.save\<close> and then deletes one cache entry.
  The inherited method belongs to the framework and is a parameter \<open>super_save\<close>: it returns
  the instance as the database leaves it (a new row receives its primary key there) and the
  new database, or raises. \<^verbatim>\<open>cache_mapper.get_ingredient_key\<close> of \<^verbatim>\<open>wger.utils.cache\<close> is the
  parameter \<open>get_ingredient_key\<close>, applied to \<^verbatim>\<open>self.id\<close> after the inherited call.
\<close>

definition save ::
  "(ingredient \<Rightarrow> 'db \<Rightarrow> error + ingredient \<times> 'db) \<Rightarrow> (int option \<Rightarrow> string) \<Rightarrow>
   ingredient \<Rightarrow> ('db, 'v) world \<Rightarrow> error + ingredient \<times> ('db, 'v) world" where
  "save super_save get_ingredient_key self w =
     (case super_save self (db w) of
        Inl e \<Rightarrow> Inl e
      | Inr (self', db') \<Rightarrow>
          Inr (self', \<lparr>db = db', cache = cache_delete (get_ingredient_key (pk self')) (cache w)\<rparr>))"

section \<open>\<^verbatim>\<open>Ingredient.set_author\<close>\<close>

record user =
  username :: string
  is_authenticated :: bool
  has_perm :: "string \<Rightarrow> bool"

record request =
  user :: user
  get_host :: string

text \<open>Truth value of an optional string: \<^verbatim>\<open>None\<close> and the empty string are false.\<close>

fun truthy_str :: "string option \<Rightarrow> bool" where
  "truthy_str None = False"
| "truthy_str (Some s) = (s \<noteq> [])"

text \<open>\<^verbatim>\<open>s.split(sep)\<close> for a separator of one character: the list is never empty.\<close>

fun split :: "char \<Rightarrow> string \<Rightarrow> string list" where
  "split sep [] = [[]]"
| "split sep (c # cs) =
     (if c = sep then [] # split sep cs
      else (case split sep cs of
              [] \<Rightarrow> [[c]]
            | w # ws \<Rightarrow> (c # w) # ws))"

text \<open>\<^verbatim>\<open>xs[0]\<close> on the result of \<^verbatim>\<open>split\<close>.\<close>

definition first_part :: "string list \<Rightarrow> string" where
  "first_part xs = (case xs of [] \<Rightarrow> [] | w # _ \<Rightarrow> w)"

text \<open>What \<^verbatim>\<open>'{0}'.format(x)\<close> prints for an optional string.\<close>

definition format_str :: "string option \<Rightarrow> string" where
  "format_str x = (case x of None \<Rightarrow> ''None'' | Some s \<Rightarrow> s)"

text \<open>
  Django's \<^verbatim>\<open>mail.mail_admins(subject, message, fail_silently)\<close>. Every call is recorded in
  the outbox, the list of notification attempts. The transport is the parameter \<open>deliver\<close>, false when
  delivery fails; the failure is raised to the caller unless \<^verbatim>\<open>fail_silently\<close> is set.
\<close>

record mail_call =
  subject :: string
  message :: string
  fail_silently :: bool

definition mail_admins ::
  "(string \<Rightarrow> string \<Rightarrow> bool) \<Rightarrow> string \<Rightarrow> string \<Rightarrow> bool \<Rightarrow> mail_call list \<Rightarrow>
   error + mail_call list" where
  "mail_admins deliver subj msg silent outbox =
     (if deliver subj msg \<or> silent
      then Inr (outbox @ [\<lparr>subject = subj, message = msg, fail_silently = silent\<rparr>])
      else Inl (ExternalError ''mail delivery failed''))"

definition set_author ::
  "(string \<Rightarrow> string \<Rightarrow> bool) \<Rightarrow> request \<Rightarrow> ingredient \<Rightarrow> mail_call list \<Rightarrow>
   error + ingredient \<times> mail_call list" where
  "set_author deliver req self outbox =
     (if has_perm (user req) ''nutrition.add_ingredient'' then
        (let self1 = self\<lparr>status := STATUS_ACCEPTED\<rparr>;
             self2 = (if \<not> truthy_str (license_author self1)
                      then self1\<lparr>license_author :=
                                   Some (first_part (split CHR '':'' (get_host req)))\<rparr>
                      else self1)
         in Inr (self2, outbox))
      else
        (let self1 = (if \<not> truthy_str (license_author self)
                      then self\<lparr>license_author := Some (username (user req))\<rparr>
                      else self);
             subj = ''New user submitted ingredient'';
             msg = ''The user '' @ username (user req) @ '' submitted a new ingredient ''
                   @ [CHR 0x22] @ format_str (name self1) @ [CHR 0x22] @ ''.''
         in case mail_admins deliver subj msg True outbox of
              Inl e \<Rightarrow> Inl e
            | Inr outbox' \<Rightarrow> Inr (self1, outbox')))"

section \<open>\<^verbatim>\<open>Ingredient.__eq__\<close> and \<^verbatim>\<open>Ingredient.__hash__\<close>\<close>

text \<open>The scalar Python values held by the compared attributes.\<close>

datatype pyval = PNone | PInt int | PDec decimal | PStr string

text \<open>\<^verbatim>\<open>a == b\<close>: numbers compare by value, also an int with a Decimal; values of other
  different types are unequal.\<close>

fun py_eq :: "pyval \<Rightarrow> pyval \<Rightarrow> bool" where
  "py_eq PNone PNone = True"
| "py_eq (PInt a) (PInt b) = (a = b)"
| "py_eq (PDec a) (PDec b) = dec_eq a b"
| "py_eq (PInt a) (PDec b) = dec_eq (dec_of_int a) b"
| "py_eq (PDec a) (PInt b) = dec_eq a (dec_of_int b)"
| "py_eq (PStr a) (PStr b) = (a = b)"
| "py_eq _ _ = False"

definition py_ne :: "pyval \<Rightarrow> pyval \<Rightarrow> bool" where
  "py_ne a b = (\<not> py_eq a b)"

definition of_dec_opt :: "decimal option \<Rightarrow> pyval" where
  "of_dec_opt x = (case x of None \<Rightarrow> PNone | Some d \<Rightarrow> PDec d)"

definition of_int_opt :: "int option \<Rightarrow> pyval" where
  "of_int_opt x = (case x of None \<Rightarrow> PNone | Some n \<Rightarrow> PInt n)"

definition of_str_opt :: "string option \<Rightarrow> pyval" where
  "of_str_opt x = (case x of None \<Rightarrow> PNone | Some s \<Rightarrow> PStr s)"

text \<open>
  Attribute lookup by name on an ingredient, for the names that \<^verbatim>\<open>__eq__\<close> asks for: \<open>None\<close>
  when the instance has no such attribute (\<^verbatim>\<open>hasattr\<close> is false). The model declares no
  attribute \<^verbatim>\<open>creation_date\<close>: its date fields are \<^verbatim>\<open>created\<close>, \<^verbatim>\<open>last_update\<close> and
  \<^verbatim>\<open>last_imported\<close>.
\<close>

definition getattr :: "ingredient \<Rightarrow> string \<Rightarrow> pyval option" where
  "getattr r i =
     (if i = ''carbohydrates'' then Some (of_dec_opt (carbohydrates r))
      else if i = ''carbohydrates_sugar'' then Some (of_dec_opt (carbohydrates_sugar r))
      else if i = ''energy'' then Some (of_int_opt (energy r))
      else if i = ''fat'' then Some (of_dec_opt (fat r))
      else if i = ''fat_saturated'' then Some (of_dec_opt (fat_saturated r))
      else if i = ''fibres'' then Some (of_dec_opt (fibres r))
      else if i = ''name'' then Some (of_str_opt (name r))
      else if i = ''protein'' then Some (of_dec_opt (protein r))
      else if i = ''sodium'' then Some (of_dec_opt (sodium r))
      else None)"

definition hasattr :: "ingredient \<Rightarrow> string \<Rightarrow> bool" where
  "hasattr r i = (getattr r i \<noteq> None)"

text \<open>\<^verbatim>\<open>getattr(r, i, None)\<close>: the default \<^verbatim>\<open>None\<close> for a missing attribute.\<close>

definition getattr_default :: "ingredient \<Rightarrow> string \<Rightarrow> pyval" where
  "getattr_default r i = (case getattr r i of None \<Rightarrow> PNone | Some v \<Rightarrow> v)"

definition eq_attributes :: "string list" where
  "eq_attributes =
     [''carbohydrates'', ''carbohydrates_sugar'', ''creation_date'', ''energy'', ''fat'',
      ''fat_saturated'', ''fibres'', ''name'', ''protein'', ''sodium'']"

text \<open>The condition of the loop body: the attribute makes the two instances unequal.\<close>

definition attr_differs :: "ingredient \<Rightarrow> ingredient \<Rightarrow> string \<Rightarrow> bool" where
  "attr_differs self other i =
     (hasattr self i \<and> hasattr other i
      \<and> py_ne (getattr_default self i) (getattr_default other i))"

text \<open>The object on the right of \<^verbatim>\<open>==\<close>: an ingredient, or anything else.\<close>

datatype pyobj = Ingredient_obj ingredient | Other_obj pyval

fun ingredient_eq :: "ingredient \<Rightarrow> pyobj \<Rightarrow> bool" where
  "ingredient_eq self (Ingredient_obj other) =
     fold (\<lambda>i equal. if attr_differs self other i then False else equal) eq_attributes True"
| "ingredient_eq self (Other_obj v) = False"

text \<open>
  \<^verbatim>\<open>hash(n)\<close> of an int in CPython on a 64-bit platform: the value reduced modulo the prime
  \<open>2^61 - 1\<close> with the sign kept, and -2 in place of -1. The hash of \<^verbatim>\<open>None\<close> depends on the
  interpreter and is the parameter \<open>hash_none\<close>.
\<close>

definition hash_int :: "int \<Rightarrow> int" where
  "hash_int n =
     (let h = sgn n * (\<bar>n\<bar> mod (2 ^ 61 - 1)) in if h = - 1 then - 2 else h)"

definition ingredient_hash :: "int \<Rightarrow> ingredient \<Rightarrow> int" where
  "ingredient_hash hash_none self =
     (case pk self of None \<Rightarrow> hash_none | Some n \<Rightarrow> hash_int n)"

section \<open>The index view\<close>

text \<open>
  \<^verbatim>\<open>index\<close> of \<^verbatim>\<open>wger/core/views/misc.py\<close>. A view answers with a redirect to a URL or with
  rendered content. \<^verbatim>\<open>reverse\<close> looks a route name up in the URL configuration, the
  parameter \<open>urls\<close>, and raises \<^verbatim>\<open>NoReverseMatch\<close> for a name that is not configured.
\<close>

datatype http_response = HttpResponseRedirect string | HttpResponse string

definition reverse :: "(string \<rightharpoonup> string) \<Rightarrow> string \<Rightarrow> error + string" where
  "reverse urls viewname = (case urls viewname of None \<Rightarrow> Inl NoReverseMatch | Some u \<Rightarrow> Inr u)"

definition index :: "(string \<rightharpoonup> string) \<Rightarrow> request \<Rightarrow> error + http_response" where
  "index urls req =
     (if is_authenticated (user req) then
        (case reverse urls ''core:dashboard'' of
           Inl e \<Rightarrow> Inl e
         | Inr u \<Rightarrow> Inr (HttpResponseRedirect u))
      else
        (case reverse urls ''software:features'' of
           Inl e \<Rightarrow> Inl e
         | Inr u \<Rightarrow> Inr (HttpResponseRedirect u)))"

section \<open>\<^verbatim>\<open>Ingredient.fetch_ingredient_from_off\<close>\<close>

text \<open>
  Dictionaries with string keys are association lists; \<^verbatim>\<open>d[k]\<close> raises \<^verbatim>\<open>KeyError\<close> for a key
  that is not there.
\<close>

type_synonym pydict = "(string \<times> pyval) list"

definition getitem :: "(string \<times> 'a) list \<Rightarrow> string \<Rightarrow> error + 'a" where
  "getitem d k = (case map_of d k of None \<Rightarrow> Inl KeyError | Some v \<Rightarrow> Inr v)"

text \<open>A value of the response of the product database: a scalar, or the nested product
  dictionary.\<close>

datatype off_value = Scalar pyval | Product pydict

text \<open>\<^verbatim>\<open>v != n\<close> for an int \<open>n\<close>; a dictionary never equals an int.\<close>

definition differs_from_int :: "off_value \<Rightarrow> int \<Rightarrow> bool" where
  "differs_from_int v n = (case v of Scalar x \<Rightarrow> py_ne x (PInt n) | Product _ \<Rightarrow> True)"

text \<open>Truth value of a scalar.\<close>

fun truthy :: "pyval \<Rightarrow> bool" where
  "truthy PNone = False"
| "truthy (PInt n) = (n \<noteq> 0)"
| "truthy (PDec d) = (coefficient d \<noteq> 0)"
| "truthy (PStr s) = (s \<noteq> [])"

text \<open>
  The collaborators of the lookup, none of them in this file of the repository:
  \<^verbatim>\<open>openfoodfacts.products.get_product\<close> (the network call), \<^verbatim>\<open>load_language\<close> of
  \<^verbatim>\<open>wger.utils.language\<close>, \<^verbatim>\<open>extract_info_from_off\<close> of \<^verbatim>\<open>wger.nutrition.off\<close>, the model
  constructor \<^verbatim>\<open>cls(**ingredient_data)\<close>, the inherited \<^verbatim>\<open>save\<close> and the cache key used by
  \<^verbatim>\<open>Ingredient.save\<close>, and the constant \<^verbatim>\<open>OFF_SEARCH_PRODUCT_FOUND\<close> of
  \<^verbatim>\<open>wger.utils.constants\<close>. Each may raise, so each returns an error or a value.
\<close>

record ('l, 'db) collaborators =
  get_product :: "string \<Rightarrow> error + (string \<times> off_value) list"
  load_language :: "pyval \<Rightarrow> error + 'l"
  extract_info_from_off :: "pydict \<Rightarrow> 'l \<Rightarrow> error + pydict"
  Ingredient_init :: "pydict \<Rightarrow> error + ingredient"
  super_save :: "ingredient \<Rightarrow> 'db \<Rightarrow> error + ingredient \<times> 'db"
  get_ingredient_key :: "int option \<Rightarrow> string"
  OFF_SEARCH_PRODUCT_FOUND :: int

text \<open>
  The body of the \<^verbatim>\<open>try\<close>:
  \<^verbatim>\<open>extract_info_from_off(product, load_language(product['lang']))\<close>. Subscripting a value
  that is not a dictionary raises \<^verbatim>\<open>TypeError\<close>.
\<close>

definition extraction :: "('l, 'db) collaborators \<Rightarrow> off_value \<Rightarrow> error + pydict" where
  "extraction env product =
     (case product of
        Scalar _ \<Rightarrow> Inl TypeError
      | Product d \<Rightarrow>
          (case getitem d ''lang'' of
             Inl e \<Rightarrow> Inl e
           | Inr lang \<Rightarrow>
               (case load_language env lang of
                  Inl e \<Rightarrow> Inl e
                | Inr l \<Rightarrow> extract_info_from_off env d l)))"

definition fetch_ingredient_from_off ::
  "('l, 'db) collaborators \<Rightarrow> string \<Rightarrow> ('db, 'v) world \<Rightarrow>
   error + ingredient option \<times> ('db, 'v) world" where
  "fetch_ingredient_from_off env barcode w =
     (case get_product env barcode of
        Inl e \<Rightarrow> Inl e
      | Inr result \<Rightarrow>
     (case getitem result ''status'' of
        Inl e \<Rightarrow> Inl e
      | Inr st \<Rightarrow>
     if differs_from_int st (OFF_SEARCH_PRODUCT_FOUND env) then Inr (None, w)
     else
     (case getitem result ''product'' of
        Inl e \<Rightarrow> Inl e
      | Inr product \<Rightarrow>
     (case extraction env product of
        Inl e \<Rightarrow> if e = KeyError then Inr (None, w) else Inl e
      | Inr ingredient_data \<Rightarrow>
     (case getitem ingredient_data ''name'' of
        Inl e \<Rightarrow> Inl e
      | Inr n \<Rightarrow>
     if \<not> truthy n then Inr (None, w)
     else
     (case getitem ingredient_data ''common_name'' of
        Inl e \<Rightarrow> Inl e
      | Inr cn \<Rightarrow>
     if \<not> truthy cn then Inr (None, w)
     else
     (case Ingredient_init env ingredient_data of
        Inl e \<Rightarrow> Inl e
      | Inr ingredient \<Rightarrow>
     (case save (super_save env) (get_ingredient_key env) ingredient w of
        Inl e \<Rightarrow> Inl e
      | Inr (ingredient', w') \<Rightarrow> Inr (Some ingredient', w')))))))))"

section \<open>\<^verbatim>\<open>Ingredient.energy_kilojoule\<close>\<close>

text \<open>
  The property multiplies the int \<^verbatim>\<open>self.energy\<close> by the float literal \<^verbatim>\<open>4.184\<close>, so the
  product is an IEEE 754 binary64 number, converts it to a Decimal and quantizes that.

  A finite float is a mantissa and a binary exponent. \<open>float_round\<close> rounds a rational to the
  nearest float with 53 significant bits, ties to even, which is how the literal is read, how
  an int is converted and how a product is rounded. Subnormal numbers are not modelled: every
  product here is 0 or at least 4 in magnitude. A result of magnitude \<open>2^1024\<close> or more has no
  finite float.
\<close>

definition round_half_even :: "rat \<Rightarrow> int" where
  "round_half_even x =
     (let f = \<lfloor>x\<rfloor>; d = x - of_int f
      in if d < 1 / 2 then f else if 1 / 2 < d then f + 1 else if even f then f else f + 1)"

datatype pyfloat = Float (mantissa: int) (binary_exponent: int)

definition float_val :: "pyfloat \<Rightarrow> rat" where
  "float_val x = of_int (mantissa x) * power_int 2 (binary_exponent x)"

text \<open>The exponent \<open>k\<close> with \<open>2^k \<le> |x| < 2^(k+1)\<close>, for \<open>x\<close> other than 0.\<close>

definition float_exponent :: "rat \<Rightarrow> int" where
  "float_exponent x =
     (let (p, q) = quotient_of \<bar>x\<bar>; d = bitlen p - bitlen q
      in if power_int 2 d \<le> \<bar>x\<bar> then d else d - 1)"

definition float_round :: "rat \<Rightarrow> pyfloat" where
  "float_round x =
     (if x = 0 then Float 0 0
      else (let s = float_exponent x - 52
            in Float (round_half_even (x / power_int 2 s)) s))"

definition float_overflows :: "pyfloat \<Rightarrow> bool" where
  "float_overflows x = (2 ^ 1024 \<le> \<bar>float_val x\<bar>)"

text \<open>The conversion of an int operand: \<^verbatim>\<open>OverflowError\<close> for an int too large for a
  float.\<close>

definition float_of_int :: "int \<Rightarrow> error + pyfloat" where
  "float_of_int n =
     (let x = float_round (of_int n)
      in if float_overflows x then Inl OverflowError else Inr x)"

text \<open>The product of two floats: \<open>None\<close> stands for an infinity.\<close>

definition float_mul :: "pyfloat \<Rightarrow> pyfloat \<Rightarrow> pyfloat option" where
  "float_mul a b =
     (let x = float_round (float_val a * float_val b)
      in if float_overflows x then None else Some x)"

text \<open>The float literal \<^verbatim>\<open>4.184\<close>.\<close>

definition literal_4_184 :: pyfloat where
  "literal_4_184 = float_round (4184 / 1000)"

text \<open>
  \<^verbatim>\<open>Decimal(f)\<close> for a finite float is exact: with \<open>n / 2^k\<close> the ratio of \<open>f\<close> in lowest terms
  (\<^verbatim>\<open>as_integer_ratio\<close>), the Decimal has coefficient \<open>n * 5^k\<close> and exponent \<open>-k\<close>.
\<close>

fun lowest_terms :: "int \<Rightarrow> nat \<Rightarrow> int \<times> nat" where
  "lowest_terms m 0 = (m, 0)"
| "lowest_terms m (Suc k) = (if even m then lowest_terms (m div 2) k else (m, Suc k))"

definition dec_of_float :: "pyfloat \<Rightarrow> decimal" where
  "dec_of_float x =
     (if 0 \<le> binary_exponent x then Decimal (mantissa x * 2 ^ nat (binary_exponent x)) 0
      else (let (n, k) = lowest_terms (mantissa x) (nat (- binary_exponent x))
            in Decimal (n * 5 ^ k) (- int k)))"

text \<open>
  \<^verbatim>\<open>d.quantize(e)\<close> in the default context: the value of \<open>d\<close> rounded half-even to the
  exponent of \<open>e\<close>; \<^verbatim>\<open>InvalidOperation\<close> when the coefficient of the result would have more
  digits than the context precision, 28.
\<close>

definition prec :: nat where "prec = 28"

definition quantize :: "decimal \<Rightarrow> decimal \<Rightarrow> error + decimal" where
  "quantize d e =
     (let c = round_half_even (dec_val d / power_int 10 (exponent e))
      in if 10 ^ prec \<le> \<bar>c\<bar> then Inl InvalidOperation
         else Inr (Decimal c (exponent e)))"

text \<open>
  Modelled from the spec: \<^verbatim>\<open>TWOPLACES\<close> of \<^verbatim>\<open>wger.utils.constants\<close>, the quantum of two
  decimal places, \<^verbatim>\<open>Decimal('0.01')\<close>.
\<close>

definition TWOPLACES :: decimal where "TWOPLACES = Decimal 1 (- 2)"

text \<open>
  The property. The int \<^verbatim>\<open>0\<close> of the \<^verbatim>\<open>else\<close> branch is written as the Decimal 0. An
  infinite product makes \<^verbatim>\<open>quantize\<close> raise \<^verbatim>\<open>InvalidOperation\<close>.
\<close>

definition energy_kilojoule :: "ingredient \<Rightarrow> error + decimal" where
  "energy_kilojoule self =
     (case energy self of
        None \<Rightarrow> Inr (dec_of_int 0)
      | Some e \<Rightarrow>
          if truthy_int (energy self) then
            (case float_of_int e of
               Inl err \<Rightarrow> Inl err
             | Inr x \<Rightarrow>
                 (case float_mul x literal_4_184 of
                    None \<Rightarrow> Inl InvalidOperation
                  | Some y \<Rightarrow> quantize (dec_of_float y) TWOPLACES))
          else Inr (dec_of_int 0))"

section \<open>Example records\<close>

text \<open>An instance with nothing filled in, the starting point of the concrete examples.\<close>

definition blank_ingredient :: ingredient where
  "blank_ingredient =
     \<lparr>pk = None, uuid = [], name = None, energy = None, protein = None,
      carbohydrates = None, carbohydrates_sugar = None, fat = None, fat_saturated = None,
      fibres = None, sodium = None, code = None, common_name = None,
      status = STATUS_PENDING, license_author = None\<rparr>"

text \<open>The macronutrients of the worked example: 5 g protein, 10 g carbohydrates, 2 g fat.\<close>

definition example_macros :: ingredient where
  "example_macros =
     blank_ingredient\<lparr>name := Some ''Example'', protein := Some (Decimal 5 0),
       carbohydrates := Some (Decimal 10 0), fat := Some (Decimal 2 0)\<rparr>"

text \<open>A database that is a list of rows and gives a new row the next free primary key, and
  a cache key built from the primary key.\<close>

definition example_super_save ::
  "ingredient \<Rightarrow> ingredient list \<Rightarrow> error + ingredient \<times> ingredient list" where
  "example_super_save r rows =
     (case pk r of
        None \<Rightarrow> (let r' = r\<lparr>pk := Some (int (length rows) + 1)\<rparr> in Inr (r', rows @ [r']))
      | Some _ \<Rightarrow> Inr (r, rows @ [r]))"

definition example_key :: "int option \<Rightarrow> string" where
  "example_key i = ''ingredient-'' @ (case i of None \<Rightarrow> ''None'' | Some n \<Rightarrow> str_int n)"

definition example_world :: "(ingredient list, string) world" where
  "example_world = \<lparr>db = [], cache = [example_key (Some 1) \<mapsto> ''cached'']\<rparr>"

text \<open>A user without permissions, an administrator, and a request from each.\<close>

definition example_user :: user where
  "example_user = \<lparr>username = ''bob'', is_authenticated = True, has_perm = (\<lambda>p. False)\<rparr>"

definition example_admin :: user where
  "example_admin = \<lparr>username = ''admin'', is_authenticated = True, has_perm = (\<lambda>p. True)\<rparr>"

definition example_anonymous :: user where
  "example_anonymous = \<lparr>username = [], is_authenticated = False, has_perm = (\<lambda>p. False)\<rparr>"

definition example_request :: "user \<Rightarrow> request" where
  "example_request u = \<lparr>user = u, get_host = ''wger.example.org:8000''\<rparr>"

definition example_urls :: "string \<rightharpoonup> string" where
  "example_urls = [''core:dashboard'' \<mapsto> ''/dashboard'', ''software:features'' \<mapsto> ''/software/features'']"

text \<open>
  A product database with five entries: an unknown barcode, a product without language, one
  without a name, one without a common name, and a complete one. The extraction reads the
  two names and fails with \<^verbatim>\<open>KeyError\<close> when one is not in the payload.
\<close>

definition example_response :: "string \<Rightarrow> (string \<times> off_value) list" where
  "example_response barcode =
     (if barcode = ''0000'' then [(''status'', Scalar (PInt 0))]
      else if barcode = ''1111'' then
        [(''status'', Scalar (PInt 1)),
         (''product'', Product [(''product_name'', PStr ''Oats'')])]
      else if barcode = ''2222'' then
        [(''status'', Scalar (PInt 1)),
         (''product'', Product [(''lang'', PStr ''en''), (''product_name'', PStr []),
                                (''generic_name'', PStr ''Rolled oats'')])]
      else if barcode = ''3333'' then
        [(''status'', Scalar (PInt 1)),
         (''product'', Product [(''lang'', PStr ''en''), (''product_name'', PStr ''Oats''),
                                (''generic_name'', PStr [])])]
      else
        [(''status'', Scalar (PInt 1)),
         (''product'', Product [(''lang'', PStr ''en''), (''product_name'', PStr ''Oats''),
                                (''generic_name'', PStr ''Rolled oats'')])])"

definition example_extract :: "pydict \<Rightarrow> string \<Rightarrow> error + pydict" where
  "example_extract product lang =
     (case getitem product ''product_name'' of
        Inl e \<Rightarrow> Inl e
      | Inr n \<Rightarrow>
          (case getitem product ''generic_name'' of
             Inl e \<Rightarrow> Inl e
           | Inr g \<Rightarrow> Inr [(''name'', n), (''common_name'', g)]))"

definition example_init :: "pydict \<Rightarrow> error + ingredient" where
  "example_init d =
     (case (map_of d ''name'', map_of d ''common_name'') of
        (Some (PStr n), Some (PStr g)) \<Rightarrow>
          Inr (blank_ingredient\<lparr>name := Some n, common_name := Some g\<rparr>)
      | _ \<Rightarrow> Inl TypeError)"

definition example_env :: "(string, ingredient list) collaborators" where
  "example_env =
     \<lparr>get_product = (\<lambda>barcode. Inr (example_response barcode)),
      load_language = (\<lambda>v. case v of PStr s \<Rightarrow> Inr s | _ \<Rightarrow> Inr ''en''),
      extract_info_from_off = example_extract,
      Ingredient_init = example_init,
      super_save = example_super_save,
      get_ingredient_key = example_key,
      OFF_SEARCH_PRODUCT_FOUND = 1\<rparr>"

text \<open>The stored oats of the complete entry.\<close>

definition example_oats :: ingredient where
  "example_oats =
     blank_ingredient\<lparr>pk := Some 1, name := Some ''Oats'', common_name := Some ''Rolled oats''\<rparr>"

section \<open>Value equality, as a specification\<close>

text \<open>Two ingredients agree on the nine nutritional attributes when each pair of values is
  equal in Python's sense.\<close>

definition values_agree :: "ingredient \<Rightarrow> ingredient \<Rightarrow> bool" where
  "values_agree a b =
     (py_eq (of_dec_opt (carbohydrates a)) (of_dec_opt (carbohydrates b))
      \<and> py_eq (of_dec_opt (carbohydrates_sugar a)) (of_dec_opt (carbohydrates_sugar b))
      \<and> py_eq (of_int_opt (energy a)) (of_int_opt (energy b))
      \<and> py_eq (of_dec_opt (fat a)) (of_dec_opt (fat b))
      \<and> py_eq (of_dec_opt (fat_saturated a)) (of_dec_opt (fat_saturated b))
      \<and> py_eq (of_dec_opt (fibres a)) (of_dec_opt (fibres b))
      \<and> py_eq (of_str_opt (name a)) (of_str_opt (name b))
      \<and> py_eq (of_dec_opt (protein a)) (of_dec_opt (protein b))
      \<and> py_eq (of_dec_opt (sodium a)) (of_dec_opt (sodium b)))"

section \<open>The energy check\<close>

text \<open>The numeric value of a macronutrient field, a missing one counting as 0, and the sum
  that the docstring of \<^verbatim>\<open>clean\<close> describes.\<close>

definition macro_val :: "decimal option \<Rightarrow> rat" where
  "macro_val x = (case x of None \<Rightarrow> 0 | Some d \<Rightarrow> dec_val d)"

definition macro_sum :: "ingredient \<Rightarrow> rat" where
  "macro_sum r =
     4 * macro_val (protein r) + 4 * macro_val (carbohydrates r) + 9 * macro_val (fat r)"

subsection \<open>Decimal arithmetic computes with the values\<close>

lemma pow10_shift: "e \<le> x \<Longrightarrow> (10::rat) ^ nat (x - e) * power_int 10 e = power_int 10 x"
proof -
  assume "e \<le> x"
  then have "power_int (10::rat) (x - e) = 10 ^ nat (x - e)"
    by (simp add: power_int_def)
  moreover have "power_int (10::rat) ((x - e) + e) = power_int 10 (x - e) * power_int 10 e"
    by (rule power_int_add) simp
  ultimately show ?thesis by simp
qed

lemma dec_val_add: "dec_val (dec_add a b) = dec_val a + dec_val b"
proof -
  define e where "e = min (exponent a) (exponent b)"
  have ea: "e \<le> exponent a" and eb: "e \<le> exponent b"
    by (simp_all add: e_def)
  have "dec_val (dec_add a b) =
      of_int (coefficient a) * (10 ^ nat (exponent a - e) * power_int 10 e)
    + of_int (coefficient b) * (10 ^ nat (exponent b - e) * power_int 10 e)"
    by (simp add: dec_val_def dec_add_def Let_def e_def algebra_simps)
  also have "\<dots> = dec_val a + dec_val b"
    by (simp only: pow10_shift [OF ea] pow10_shift [OF eb] dec_val_def)
  finally show ?thesis .
qed

lemma dec_val_mul: "dec_val (dec_mul a b) = dec_val a * dec_val b"
  by (simp add: dec_val_def dec_mul_def power_int_add)

lemma dec_val_of_int: "dec_val (dec_of_int n) = of_int n"
  by (simp add: dec_val_def dec_of_int_def)

lemma dec_val_sub: "dec_val (dec_sub a b) = dec_val a - dec_val b"
  by (simp add: dec_sub_def dec_val_add) (simp add: dec_val_def)

lemma dec_val_zero_iff: "dec_val d = 0 \<longleftrightarrow> coefficient d = 0"
  by (simp add: dec_val_def)

lemma dec_val_energy_of: "dec_val (energy_of x k) = macro_val x * of_int k"
  by (cases x)
     (simp_all add: energy_of_def macro_val_def dec_val_mul dec_val_of_int dec_val_zero_iff)

lemma dec_val_energy_calculated: "dec_val (energy_calculated r) = macro_sum r"
  by (simp add: energy_calculated_def macro_sum_def dec_val_add dec_val_energy_of
      ENERGY_FACTOR_protein_def ENERGY_FACTOR_carbohydrates_def ENERGY_FACTOR_fat_def)

lemma dec_val_energy_upper: "dec_val (energy_upper e) = of_int e * (115 / 100)"
  by (simp add: energy_upper_def dec_val_mul dec_val_add dec_val_of_int
      ENERGY_APPROXIMATION_def dec_div_100_def) (simp add: dec_val_def)

lemma dec_val_energy_lower: "dec_val (energy_lower e) = of_int e * (85 / 100)"
  by (simp add: energy_lower_def dec_val_mul dec_val_sub dec_val_of_int
      ENERGY_APPROXIMATION_def dec_div_100_def) (simp add: dec_val_def)

subsection \<open>When \<^verbatim>\<open>clean\<close> passes\<close>

text \<open>
  C1, as the code has it. \<^verbatim>\<open>clean\<close> raises nothing exactly when the energy is absent, or is
  0, or lies strictly inside the band: \<open>0.85 e < 4 p + 4 c + 9 f < 1.15 e\<close>, where a missing
  macronutrient counts as 0. The guard \<^verbatim>\<open>if self.energy:\<close> skips the comparison for an
  energy of 0 as it does for an absent one. No sign condition on the values is needed.
\<close>

theorem clean_passes_iff:
  "clean r = Inr () \<longleftrightarrow>
     (case energy r of
        None \<Rightarrow> True
      | Some e \<Rightarrow>
          e = 0 \<or> (85 / 100 * of_int e < macro_sum r \<and> macro_sum r < 115 / 100 * of_int e))"
  by (cases "energy r")
     (auto simp: clean_def Let_def dec_less_def dec_val_energy_calculated dec_val_energy_upper
        dec_val_energy_lower mult.commute)

text \<open>
  C1 as the specification words it leaves the energy 0 out: there \<^verbatim>\<open>clean\<close> would pass only
  for an absent energy or inside the band. A record with energy 0 and no macronutrients
  passes, although its energy is present and the band \<open>0 < 0 < 0\<close> is empty.
\<close>

theorem clean_band_counterexample:
  "clean (blank_ingredient\<lparr>energy := Some 0\<rparr>) = Inr ()
   \<and> energy (blank_ingredient\<lparr>energy := Some 0\<rparr>) \<noteq> None
   \<and> \<not> (85 / 100 * of_int 0 < macro_sum (blank_ingredient\<lparr>energy := Some 0\<rparr>)
        \<and> macro_sum (blank_ingredient\<lparr>energy := Some 0\<rparr>) < 115 / 100 * of_int 0)"
  by (simp add: clean_def blank_ingredient_def macro_sum_def macro_val_def)

text \<open>
  C2, as the code has it. A record whose energy is 0 passes \<^verbatim>\<open>clean\<close> whatever its
  macronutrients are: the comparison is not made.
\<close>

theorem clean_zero_energy_passes:
  "energy r = Some 0 \<Longrightarrow> clean r = Inr ()"
  by (simp add: clean_def)

theorem clean_zero_energy_passes_witness:
  "energy (example_macros\<lparr>energy := Some 0\<rparr>) = Some 0
   \<and> clean (example_macros\<lparr>energy := Some 0\<rparr>) = Inr ()"
  using clean_zero_energy_passes [of "example_macros\<lparr>energy := Some 0\<rparr>"] by simp

text \<open>
  C2 as the specification words it: energy 0 with a positive macronutrient fails. The
  worked example with its energy set to 0 has positive protein, carbohydrates and fat, and
  passes.
\<close>

theorem clean_zero_energy_counterexample:
  "energy (example_macros\<lparr>energy := Some 0\<rparr>) = Some 0
   \<and> 0 < macro_val (protein (example_macros\<lparr>energy := Some 0\<rparr>))
   \<and> clean (example_macros\<lparr>energy := Some 0\<rparr>) = Inr ()"
  by (simp add: clean_def example_macros_def blank_ingredient_def macro_val_def dec_val_def)

text \<open>
  C3. With energy 100 the worked example computes 78 kcal and \<^verbatim>\<open>clean\<close> raises the
  validation error whose message holds 100, 78 and 15; with energy 80 it passes.
\<close>

theorem clean_worked_examples:
  "energy_calculated (example_macros\<lparr>energy := Some 100\<rparr>) = Decimal 78 0
   \<and> clean (example_macros\<lparr>energy := Some 100\<rparr>) =
       Inl (ValidationError
         (''The total energy (100kcal) is not the approximate sum of the energy provided ''
          @ ''by protein, carbohydrates and fat (78kcal +/-15%)''))
   \<and> clean (example_macros\<lparr>energy := Some 80\<rparr>) = Inr ()"
  by code_simp

section \<open>Saving evicts the cache entry\<close>

lemma save_raises_iff:
  "save persist key self w = Inl e \<longleftrightarrow> persist self (db w) = Inl e"
  by (auto simp: save_def split: sum.splits prod.splits)

text \<open>
  C4. When \<^verbatim>\<open>save\<close> returns, the inherited save has run on the database the call started
  with, the cache is the old cache with the entry at the key of the stored record's id
  deleted, and reading that key is a miss. \<open>persist\<close> is any inherited save and \<open>key\<close> any
  key function.
\<close>

theorem save_evicts_cache:
  assumes "save persist key self w = Inr (self', w')"
  shows "persist self (db w) = Inr (self', db w')
       \<and> cache w' = cache_delete (key (pk self')) (cache w)
       \<and> cache_get (key (pk self')) (cache w') = None"
  using assms
  by (auto simp: save_def cache_get_def cache_delete_def split: sum.splits prod.splits)

theorem save_evicts_cache_witness:
  "save example_super_save example_key blank_ingredient example_world =
     Inr (blank_ingredient\<lparr>pk := Some 1\<rparr>,
          \<lparr>db = [blank_ingredient\<lparr>pk := Some 1\<rparr>],
           cache = cache_delete (example_key (Some 1)) (cache example_world)\<rparr>)
   \<and> cache_get (example_key (Some 1)) (cache example_world) = Some ''cached''
   \<and> cache_get (example_key (Some 1))
        (cache_delete (example_key (Some 1)) (cache example_world)) = None"
proof -
  have ev: "save example_super_save example_key blank_ingredient example_world =
     Inr (blank_ingredient\<lparr>pk := Some 1\<rparr>,
          \<lparr>db = [blank_ingredient\<lparr>pk := Some 1\<rparr>],
           cache = cache_delete (example_key (Some 1)) (cache example_world)\<rparr>)"
    by (simp add: save_def example_super_save_def example_world_def blank_ingredient_def
        Let_def)
  have before: "cache_get (example_key (Some 1)) (cache example_world) = Some ''cached''"
    by (simp add: cache_get_def example_world_def)
  from save_evicts_cache [OF ev] ev before show ?thesis by simp
qed

section \<open>Authorship and notification\<close>

lemma first_part_split: "first_part (split sep s) = takeWhile (\<lambda>c. c \<noteq> sep) s"
  by (induction s) (auto simp: first_part_def split: list.splits)

lemma first_part_split_port:
  "sep \<notin> set domain \<Longrightarrow> first_part (split sep (domain @ sep # port)) = domain"
  unfolding first_part_split by (induction domain) auto

text \<open>
  C5, as the code has it. With the permission \<^verbatim>\<open>nutrition.add_ingredient\<close> the status
  becomes accepted, nothing is sent, and an absent authorship becomes the host up to its
  first colon. Without it the status is left as it was, exactly one call of \<^verbatim>\<open>mail_admins\<close>
  is made, with \<^verbatim>\<open>fail_silently\<close> set, and an absent authorship becomes the user name. In
  both branches an authorship that is already there is kept. The call returns whether or not
  the transport \<open>deliver\<close> succeeds.
\<close>

theorem set_author_outcome:
  "(has_perm (user req) ''nutrition.add_ingredient'' \<longrightarrow>
      (\<exists>self'. set_author deliver req self outbox = Inr (self', outbox)
         \<and> status self' = STATUS_ACCEPTED
         \<and> license_author self' =
             (if truthy_str (license_author self) then license_author self
              else Some (takeWhile (\<lambda>c. c \<noteq> CHR '':'') (get_host req)))))
   \<and> (\<not> has_perm (user req) ''nutrition.add_ingredient'' \<longrightarrow>
      (\<exists>self' call. set_author deliver req self outbox = Inr (self', outbox @ [call])
         \<and> fail_silently call
         \<and> subject call = ''New user submitted ingredient''
         \<and> status self' = status self
         \<and> license_author self' =
             (if truthy_str (license_author self) then license_author self
              else Some (username (user req)))))"
  by (simp add: set_author_def Let_def mail_admins_def first_part_split)

theorem set_author_outcome_witness:
  "has_perm (user (example_request example_admin)) ''nutrition.add_ingredient''
   \<and> (\<exists>self'. set_author (\<lambda>s m. False) (example_request example_admin) example_macros [] =
               Inr (self', [])
        \<and> status self' = STATUS_ACCEPTED
        \<and> license_author self' = Some ''wger.example.org'')
   \<and> \<not> has_perm (user (example_request example_user)) ''nutrition.add_ingredient''
   \<and> (\<exists>self' call. set_author (\<lambda>s m. False) (example_request example_user) example_macros [] =
               Inr (self', [call])
        \<and> fail_silently call
        \<and> subject call = ''New user submitted ingredient''
        \<and> status self' = STATUS_PENDING
        \<and> license_author self' = Some ''bob'')"
  using set_author_outcome [of "example_request example_admin" "\<lambda>s m. False" example_macros "[]"]
        set_author_outcome [of "example_request example_user" "\<lambda>s m. False" example_macros "[]"]
  by (simp add: example_request_def example_admin_def example_user_def example_macros_def
      blank_ingredient_def)

text \<open>
  C5 as the specification words it sets the authorship to the requesting user whenever the
  permission is missing. A record that already names the author alice, submitted by bob
  without the permission, still names alice afterwards.
\<close>

theorem set_author_keeps_author_counterexample:
  "\<not> has_perm (user (example_request example_user)) ''nutrition.add_ingredient''
   \<and> username (user (example_request example_user)) = ''bob''
   \<and> map_sum id (\<lambda>(self', outbox'). license_author self')
       (set_author (\<lambda>s m. True) (example_request example_user)
          (example_macros\<lparr>license_author := Some ''alice''\<rparr>) [])
     = Inr (Some ''alice'')"
  by (simp add: set_author_def Let_def mail_admins_def example_request_def example_user_def
      example_macros_def blank_ingredient_def)

section \<open>Equality by value, hash by key\<close>

lemma fold_flag:
  "fold (\<lambda>i equal. if P i then False else equal) xs b = (b \<and> list_all (\<lambda>i. \<not> P i) xs)"
  by (induction xs arbitrary: b) auto

lemma ingredient_eq_values_agree: "ingredient_eq a (Ingredient_obj b) = values_agree a b"
  by (simp add: fold_flag eq_attributes_def attr_differs_def hasattr_def getattr_def
      getattr_default_def py_ne_def values_agree_def)

lemma hash_differs:
  "ingredient_hash h (blank_ingredient\<lparr>pk := Some 1, uuid := ''a'', code := Some ''1''\<rparr>)
   \<noteq> ingredient_hash h (blank_ingredient\<lparr>pk := Some 2, uuid := ''b'', code := Some ''2''\<rparr>)"
  by (simp add: ingredient_hash_def hash_int_def blank_ingredient_def Let_def)

text \<open>
  C8. \<^verbatim>\<open>__eq__\<close> with another ingredient is exactly agreement on the nine nutritional
  attributes, whatever the primary keys, uuids and codes are; with any other object it is
  false; the listed attribute \<^verbatim>\<open>creation_date\<close> never makes two ingredients differ; and there
  are two ingredients that are equal, differ in primary key, uuid and code, and have different
  hashes.
\<close>

theorem ingredient_eq_by_value:
  "ingredient_eq a (Ingredient_obj b) = values_agree a b
   \<and> ingredient_eq a (Ingredient_obj (b\<lparr>pk := k, uuid := u, code := c\<rparr>)) =
       ingredient_eq a (Ingredient_obj b)
   \<and> ingredient_eq a (Other_obj v) = False
   \<and> attr_differs a b ''creation_date'' = False
   \<and> (\<exists>x y. ingredient_eq x (Ingredient_obj y) \<and> pk x \<noteq> pk y \<and> uuid x \<noteq> uuid y
          \<and> code x \<noteq> code y \<and> ingredient_hash h x \<noteq> ingredient_hash h y)"
proof -
  have 1: "ingredient_eq a (Ingredient_obj b) = values_agree a b"
    by (rule ingredient_eq_values_agree)
  have 2: "ingredient_eq a (Ingredient_obj (b\<lparr>pk := k, uuid := u, code := c\<rparr>)) =
       ingredient_eq a (Ingredient_obj b)"
    by (simp only: ingredient_eq_values_agree) (simp add: values_agree_def)
  have 3: "attr_differs a b ''creation_date'' = False"
    by (simp add: attr_differs_def hasattr_def getattr_def)
  let ?x = "blank_ingredient\<lparr>pk := Some 1, uuid := ''a'', code := Some ''1''\<rparr>"
  let ?y = "blank_ingredient\<lparr>pk := Some 2, uuid := ''b'', code := Some ''2''\<rparr>"
  have "ingredient_eq ?x (Ingredient_obj ?y)"
    by (simp only: ingredient_eq_values_agree)
       (simp add: values_agree_def blank_ingredient_def of_dec_opt_def of_int_opt_def
          of_str_opt_def)
  moreover have "pk ?x \<noteq> pk ?y \<and> uuid ?x \<noteq> uuid ?y \<and> code ?x \<noteq> code ?y"
    by simp
  ultimately have 4: "\<exists>x y. ingredient_eq x (Ingredient_obj y) \<and> pk x \<noteq> pk y
      \<and> uuid x \<noteq> uuid y \<and> code x \<noteq> code y \<and> ingredient_hash h x \<noteq> ingredient_hash h y"
    using hash_differs [of h] by blast
  from 1 2 3 4 show ?thesis by simp
qed

section \<open>The index view redirects\<close>

text \<open>
  C9. The view never answers with rendered content. For an authenticated user it redirects
  to the URL of \<^verbatim>\<open>core:dashboard\<close>, for any other user to the URL of \<^verbatim>\<open>software:features\<close>,
  given that the URL configuration knows the route.
\<close>

theorem index_redirects:
  "(is_authenticated (user req) \<longrightarrow> urls ''core:dashboard'' = Some d \<longrightarrow>
      index urls req = Inr (HttpResponseRedirect d))
   \<and> (\<not> is_authenticated (user req) \<longrightarrow> urls ''software:features'' = Some f \<longrightarrow>
      index urls req = Inr (HttpResponseRedirect f))
   \<and> (\<forall>content. index urls req \<noteq> Inr (HttpResponse content))"
  by (auto simp: index_def reverse_def split: option.splits)

theorem index_redirects_witness:
  "is_authenticated (user (example_request example_user))
   \<and> example_urls ''core:dashboard'' = Some ''/dashboard''
   \<and> index example_urls (example_request example_user) =
       Inr (HttpResponseRedirect ''/dashboard'')
   \<and> \<not> is_authenticated (user (example_request example_anonymous))
   \<and> example_urls ''software:features'' = Some ''/software/features''
   \<and> index example_urls (example_request example_anonymous) =
       Inr (HttpResponseRedirect ''/software/features'')"
  using index_redirects [of "example_request example_user" example_urls "''/dashboard''"
          "''/software/features''"]
        index_redirects [of "example_request example_anonymous" example_urls "''/dashboard''"
          "''/software/features''"]
  by (simp add: example_request_def example_user_def example_anonymous_def example_urls_def)

section \<open>The barcode lookup\<close>

text \<open>
  C6. When the product database answers and the status of the answer differs from
  \<^verbatim>\<open>OFF_SEARCH_PRODUCT_FOUND\<close>, the lookup returns \<^verbatim>\<open>None\<close>, raises nothing, and leaves the
  database and the cache as they were.
\<close>

theorem fetch_not_found:
  assumes "get_product env barcode = Inr result"
      and "getitem result ''status'' = Inr st"
      and "differs_from_int st (OFF_SEARCH_PRODUCT_FOUND env)"
  shows "fetch_ingredient_from_off env barcode w = Inr (None, w)"
  using assms by (simp add: fetch_ingredient_from_off_def)

theorem fetch_not_found_witness:
  "get_product example_env ''0000'' = Inr (example_response ''0000'')
   \<and> getitem (example_response ''0000'') ''status'' = Inr (Scalar (PInt 0))
   \<and> differs_from_int (Scalar (PInt 0)) (OFF_SEARCH_PRODUCT_FOUND example_env)
   \<and> fetch_ingredient_from_off example_env ''0000'' example_world = Inr (None, example_world)"
proof -
  have 1: "get_product example_env ''0000'' = Inr (example_response ''0000'')"
    by (simp add: example_env_def)
  have 2: "getitem (example_response ''0000'') ''status'' = Inr (Scalar (PInt 0))"
    by (simp add: example_response_def getitem_def)
  have 3: "differs_from_int (Scalar (PInt 0)) (OFF_SEARCH_PRODUCT_FOUND example_env)"
    by (simp add: differs_from_int_def py_ne_def example_env_def)
  from fetch_not_found [OF 1 2 3] 1 2 3 show ?thesis by simp
qed

text \<open>
  C7. For an answer with the found status and a product: when the extraction raises
  \<^verbatim>\<open>KeyError\<close>, or yields a name that is empty, or a common name that is empty, the lookup
  returns \<^verbatim>\<open>None\<close>, raises nothing and changes nothing. When both names are there, the record
  built from the extracted data is saved and returned. And a record is returned only from
  an extraction that yielded both names.
\<close>

theorem fetch_found_outcomes:
  assumes "get_product env barcode = Inr result"
      and "getitem result ''status'' = Inr st"
      and "\<not> differs_from_int st (OFF_SEARCH_PRODUCT_FOUND env)"
      and "getitem result ''product'' = Inr product"
  shows "(extraction env product = Inl KeyError \<longrightarrow>
            fetch_ingredient_from_off env barcode w = Inr (None, w))
       \<and> (\<forall>d n. extraction env product = Inr d \<and> getitem d ''name'' = Inr n \<and> \<not> truthy n \<longrightarrow>
            fetch_ingredient_from_off env barcode w = Inr (None, w))
       \<and> (\<forall>d n cn. extraction env product = Inr d \<and> getitem d ''name'' = Inr n \<and> truthy n
              \<and> getitem d ''common_name'' = Inr cn \<and> \<not> truthy cn \<longrightarrow>
            fetch_ingredient_from_off env barcode w = Inr (None, w))
       \<and> (\<forall>d n cn i0 i w'. extraction env product = Inr d
              \<and> getitem d ''name'' = Inr n \<and> truthy n
              \<and> getitem d ''common_name'' = Inr cn \<and> truthy cn
              \<and> Ingredient_init env d = Inr i0
              \<and> save (super_save env) (get_ingredient_key env) i0 w = Inr (i, w') \<longrightarrow>
            fetch_ingredient_from_off env barcode w = Inr (Some i, w'))
       \<and> (\<forall>i w'. fetch_ingredient_from_off env barcode w = Inr (Some i, w') \<longrightarrow>
            (\<exists>d n cn i0. extraction env product = Inr d
               \<and> getitem d ''name'' = Inr n \<and> truthy n
               \<and> getitem d ''common_name'' = Inr cn \<and> truthy cn
               \<and> Ingredient_init env d = Inr i0
               \<and> save (super_save env) (get_ingredient_key env) i0 w = Inr (i, w')))"
  using assms
  by (auto simp: fetch_ingredient_from_off_def split: sum.splits if_splits prod.splits)

theorem fetch_found_outcomes_witness:
  "extraction example_env
     (Product [(''product_name'', PStr ''Oats'')]) = Inl KeyError
   \<and> fetch_ingredient_from_off example_env ''1111'' example_world = Inr (None, example_world)
   \<and> extraction example_env
       (Product [(''lang'', PStr ''en''), (''product_name'', PStr []),
                 (''generic_name'', PStr ''Rolled oats'')]) =
       Inr [(''name'', PStr []), (''common_name'', PStr ''Rolled oats'')]
   \<and> fetch_ingredient_from_off example_env ''2222'' example_world = Inr (None, example_world)
   \<and> extraction example_env
       (Product [(''lang'', PStr ''en''), (''product_name'', PStr ''Oats''),
                 (''generic_name'', PStr [])]) =
       Inr [(''name'', PStr ''Oats''), (''common_name'', PStr [])]
   \<and> fetch_ingredient_from_off example_env ''3333'' example_world = Inr (None, example_world)
   \<and> extraction example_env
       (Product [(''lang'', PStr ''en''), (''product_name'', PStr ''Oats''),
                 (''generic_name'', PStr ''Rolled oats'')]) =
       Inr [(''name'', PStr ''Oats''), (''common_name'', PStr ''Rolled oats'')]
   \<and> fetch_ingredient_from_off example_env ''4444'' example_world =
       Inr (Some example_oats,
            \<lparr>db = [example_oats],
             cache = cache_delete (example_key (Some 1)) (cache example_world)\<rparr>)"
proof -
  have gp: "get_product example_env b = Inr (example_response b)" for b
    by (simp add: example_env_def)
  have nf: "\<not> differs_from_int (Scalar (PInt 1)) (OFF_SEARCH_PRODUCT_FOUND example_env)"
    by (simp add: differs_from_int_def py_ne_def example_env_def)
  have st1: "getitem (example_response ''1111'') ''status'' = Inr (Scalar (PInt 1))"
    and st2: "getitem (example_response ''2222'') ''status'' = Inr (Scalar (PInt 1))"
    and st3: "getitem (example_response ''3333'') ''status'' = Inr (Scalar (PInt 1))"
    and st4: "getitem (example_response ''4444'') ''status'' = Inr (Scalar (PInt 1))"
    by (simp_all add: example_response_def getitem_def)
  \<comment> \<open>no language in the payload\<close>
  have p1: "getitem (example_response ''1111'') ''product'' =
              Inr (Product [(''product_name'', PStr ''Oats'')])"
    by (simp add: example_response_def getitem_def)
  have x1: "extraction example_env (Product [(''product_name'', PStr ''Oats'')]) = Inl KeyError"
    by (simp add: extraction_def getitem_def)
  note F1 = fetch_found_outcomes [OF gp st1 nf p1, of example_world]
  have r1: "fetch_ingredient_from_off example_env ''1111'' example_world =
              Inr (None, example_world)"
    by (rule F1 [THEN conjunct1, THEN mp, OF x1])
  \<comment> \<open>an empty name\<close>
  have p2: "getitem (example_response ''2222'') ''product'' =
              Inr (Product [(''lang'', PStr ''en''), (''product_name'', PStr []),
                            (''generic_name'', PStr ''Rolled oats'')])"
    by (simp add: example_response_def getitem_def)
  have x2: "extraction example_env
              (Product [(''lang'', PStr ''en''), (''product_name'', PStr []),
                        (''generic_name'', PStr ''Rolled oats'')]) =
              Inr [(''name'', PStr []), (''common_name'', PStr ''Rolled oats'')]"
    by (simp add: extraction_def getitem_def example_env_def example_extract_def)
  have n2: "getitem [(''name'', PStr []), (''common_name'', PStr ''Rolled oats'')] ''name'' =
              Inr (PStr [])"
    by (simp add: getitem_def)
  have f2: "\<not> truthy (PStr [])" by simp
  note F2 = fetch_found_outcomes [OF gp st2 nf p2, of example_world]
  have r2: "fetch_ingredient_from_off example_env ''2222'' example_world =
              Inr (None, example_world)"
    by (rule F2 [THEN conjunct2, THEN conjunct1, THEN spec, THEN spec, THEN mp,
          OF conjI [OF x2 conjI [OF n2 f2]]])
  \<comment> \<open>an empty common name\<close>
  have p3: "getitem (example_response ''3333'') ''product'' =
              Inr (Product [(''lang'', PStr ''en''), (''product_name'', PStr ''Oats''),
                            (''generic_name'', PStr [])])"
    by (simp add: example_response_def getitem_def)
  have x3: "extraction example_env
              (Product [(''lang'', PStr ''en''), (''product_name'', PStr ''Oats''),
                        (''generic_name'', PStr [])]) =
              Inr [(''name'', PStr ''Oats''), (''common_name'', PStr [])]"
    by (simp add: extraction_def getitem_def example_env_def example_extract_def)
  have n3: "getitem [(''name'', PStr ''Oats''), (''common_name'', PStr [])] ''name'' =
              Inr (PStr ''Oats'')"
    and c3: "getitem [(''name'', PStr ''Oats''), (''common_name'', PStr [])] ''common_name'' =
              Inr (PStr [])"
    by (simp_all add: getitem_def)
  have t3: "truthy (PStr ''Oats'')" by simp
  note F3 = fetch_found_outcomes [OF gp st3 nf p3, of example_world]
  have r3: "fetch_ingredient_from_off example_env ''3333'' example_world =
              Inr (None, example_world)"
    by (rule F3 [THEN conjunct2, THEN conjunct2, THEN conjunct1, THEN spec, THEN spec,
          THEN spec, THEN mp, OF conjI [OF x3 conjI [OF n3 conjI [OF t3 conjI [OF c3 f2]]]]])
  \<comment> \<open>both names\<close>
  have p4: "getitem (example_response ''4444'') ''product'' =
              Inr (Product [(''lang'', PStr ''en''), (''product_name'', PStr ''Oats''),
                            (''generic_name'', PStr ''Rolled oats'')])"
    by (simp add: example_response_def getitem_def)
  have x4: "extraction example_env
              (Product [(''lang'', PStr ''en''), (''product_name'', PStr ''Oats''),
                        (''generic_name'', PStr ''Rolled oats'')]) =
              Inr [(''name'', PStr ''Oats''), (''common_name'', PStr ''Rolled oats'')]"
    by (simp add: extraction_def getitem_def example_env_def example_extract_def)
  have n4: "getitem [(''name'', PStr ''Oats''), (''common_name'', PStr ''Rolled oats'')] ''name'' =
              Inr (PStr ''Oats'')"
    and c4: "getitem [(''name'', PStr ''Oats''), (''common_name'', PStr ''Rolled oats'')]
              ''common_name'' = Inr (PStr ''Rolled oats'')"
    by (simp_all add: getitem_def)
  have t4: "truthy (PStr ''Rolled oats'')" by simp
  have i4: "Ingredient_init example_env
              [(''name'', PStr ''Oats''), (''common_name'', PStr ''Rolled oats'')] =
              Inr (blank_ingredient\<lparr>name := Some ''Oats'', common_name := Some ''Rolled oats''\<rparr>)"
    by (simp add: example_env_def example_init_def)
  have s4: "save (super_save example_env) (get_ingredient_key example_env)
              (blank_ingredient\<lparr>name := Some ''Oats'', common_name := Some ''Rolled oats''\<rparr>)
              example_world =
              Inr (example_oats,
                   \<lparr>db = [example_oats],
                    cache = cache_delete (example_key (Some 1)) (cache example_world)\<rparr>)"
    by (simp add: save_def example_env_def example_super_save_def example_world_def
        example_oats_def blank_ingredient_def Let_def)
  note F4 = fetch_found_outcomes [OF gp st4 nf p4, of example_world]
  have r4: "fetch_ingredient_from_off example_env ''4444'' example_world =
              Inr (Some example_oats,
                   \<lparr>db = [example_oats],
                    cache = cache_delete (example_key (Some 1)) (cache example_world)\<rparr>)"
    by (rule F4 [THEN conjunct2, THEN conjunct2, THEN conjunct2, THEN conjunct1,
          THEN spec, THEN spec, THEN spec, THEN spec, THEN spec, THEN spec, THEN mp,
          OF conjI [OF x4 conjI [OF n4 conjI [OF t3 conjI [OF c4 conjI [OF t4
             conjI [OF i4 s4]]]]]]])
  show ?thesis
    by (intro conjI) (rule x1 r1 x2 r2 x3 r3 x4 r4)+
qed

section \<open>Kilojoules\<close>

subsection \<open>Rounding to the nearest integer and to the nearest float\<close>

lemma float_exponent_bounds:
  assumes "x \<noteq> 0"
  shows "power_int 2 (float_exponent x) \<le> \<bar>x\<bar> \<and> \<bar>x\<bar> < power_int 2 (float_exponent x + 1)"
proof -
  obtain p q where pq: "quotient_of \<bar>x\<bar> = (p, q)" by (cases "quotient_of \<bar>x\<bar>")
  have q: "0 < q" using pq quotient_of_denom_pos by blast
  have xpq: "\<bar>x\<bar> = of_int p / of_int q" using pq quotient_of_div by blast
  have p: "0 < p"
  proof -
    have "0 < \<bar>x\<bar>" using assms by simp
    then have "0 < (of_int p :: rat) / of_int q" using xpq by simp
    then show ?thesis using q by (simp add: zero_less_divide_iff)
  qed
  define bp where "bp = bitlen p"
  define bq where "bq = bitlen q"
  define P :: rat where "P = of_int p"
  define Q :: rat where "Q = of_int q"
  have bp1: "1 \<le> bp" using p bitlen_nonneg[of p] bitlen_eq_zero_iff[of p] by (simp add: bp_def) 
  have bq1: "1 \<le> bq" using q bitlen_nonneg[of q] bitlen_eq_zero_iff[of q] by (simp add: bq_def)
  have "of_int (2 ^ nat (bp - 1)) \<le> P" "P < of_int (2 ^ nat bp)"
    unfolding P_def using bitlen_bounds [OF p] by (simp_all only: bp_def of_int_le_iff of_int_less_iff)
  then have P: "power_int 2 (bp - 1) \<le> P" "P < power_int 2 bp"
    using bp1 by (simp_all add: power_int_def)
  have "of_int (2 ^ nat (bq - 1)) \<le> Q" "Q < of_int (2 ^ nat bq)"
    unfolding Q_def using bitlen_bounds [OF q] by (simp_all only: bq_def of_int_le_iff of_int_less_iff)
  then have Q: "power_int 2 (bq - 1) \<le> Q" "Q < power_int 2 bq"
    using bq1 by (simp_all add: power_int_def)
  have Qpos: "0 < Q" using q by (simp add: Q_def)
  have Ppos: "0 < P" using p by (simp add: P_def)
  define d where "d = bp - bq"
  have two: "(0::rat) < power_int 2 n" for n by simp
  have upper: "P / Q < power_int 2 (d + 1)"
  proof -
    have "P / Q \<le> P / power_int 2 (bq - 1)"
      using Q(1) Ppos two[of "bq - 1"] by (simp add: frac_le)
    also have "\<dots> < power_int 2 bp / power_int 2 (bq - 1)"
      using P(2) two[of "bq - 1"] by (simp add: divide_strict_right_mono)
    also have "\<dots> = power_int 2 (d + 1)"
      by (simp add: d_def power_int_diff [symmetric] algebra_simps)
    finally show ?thesis .
  qed
  have lower: "power_int 2 (d - 1) < P / Q"
  proof -
    have "power_int (2::rat) (d - 1) = power_int 2 (bp - 1) / power_int 2 bq"
      by (simp add: d_def power_int_diff [symmetric] algebra_simps)
    also have "\<dots> \<le> P / power_int 2 bq"
      using P(1) two[of bq] by (simp add: divide_right_mono)
    also have "\<dots> < P / Q"
      using Q(2) Qpos Ppos by (simp add: divide_strict_left_mono)
    finally show ?thesis .
  qed
  have fe: "float_exponent x = (if power_int 2 d \<le> \<bar>x\<bar> then d else d - 1)"
    by (simp add: float_exponent_def pq d_def bp_def bq_def Let_def)
  have x: "\<bar>x\<bar> = P / Q" by (simp add: xpq P_def Q_def)
  show ?thesis
  proof (cases "power_int 2 d \<le> \<bar>x\<bar>")
    case True
    then show ?thesis using upper x fe by simp
  next
    case False
    then show ?thesis using lower x fe by simp
  qed
qed

lemma round_half_even_near: "\<bar>of_int (round_half_even x) - x\<bar> \<le> 1 / 2"
proof -
  have "of_int \<lfloor>x\<rfloor> \<le> x" "x < of_int \<lfloor>x\<rfloor> + 1" by linarith+
  then show ?thesis
    by (auto simp: round_half_even_def Let_def abs_le_iff)
qed

lemma round_half_even_unique:
  assumes "of_int n - 1 / 2 < x" and "x < of_int n + 1 / 2"
  shows "round_half_even x = n"
proof -
  have "\<lfloor>x\<rfloor> = n \<or> \<lfloor>x\<rfloor> = n - 1" using assms by linarith
  then show ?thesis
  proof
    assume f: "\<lfloor>x\<rfloor> = n"
    then show ?thesis using assms by (simp add: round_half_even_def Let_def)
  next
    assume f: "\<lfloor>x\<rfloor> = n - 1"
    then show ?thesis using assms by (simp add: round_half_even_def Let_def)
  qed
qed

lemma round_half_even_of_int: "round_half_even (of_int n) = n"
  by (rule round_half_even_unique) simp_all

lemma float_round_error:
  assumes "x \<noteq> 0"
  shows "\<bar>float_val (float_round x) - x\<bar> \<le> \<bar>x\<bar> / 2 ^ 53"
proof -
  define k where "k = float_exponent x"
  define s where "s = k - 52"
  define z where "z = x / power_int 2 s"
  have kb: "power_int 2 k \<le> \<bar>x\<bar>" using float_exponent_bounds [OF assms] by (simp add: k_def)
  have spos: "(0::rat) < power_int 2 s" by simp
  have xz: "x = z * power_int 2 s" by (simp add: z_def)
  have fv: "float_val (float_round x) = of_int (round_half_even z) * power_int 2 s"
    using assms by (simp add: float_round_def float_val_def Let_def k_def s_def z_def)
  have "float_val (float_round x) - x = (of_int (round_half_even z) - z) * power_int 2 s"
    unfolding fv by (simp add: left_diff_distrib z_def)
  then have "\<bar>float_val (float_round x) - x\<bar> = \<bar>of_int (round_half_even z) - z\<bar> * power_int 2 s"
    by (simp add: abs_mult)
  also have "\<dots> \<le> 1 / 2 * power_int 2 s"
    using round_half_even_near [of z] spos by (simp add: mult_right_mono)
  also have "\<dots> = power_int 2 k / 2 ^ 53"
    by (simp add: s_def power_int_diff)
  also have "\<dots> \<le> \<bar>x\<bar> / 2 ^ 53"
    using kb by (simp add: divide_right_mono)
  finally show ?thesis .
qed

lemma float_round_int:
  assumes "\<bar>e\<bar> < 2 ^ 53"
  shows "float_val (float_round (of_int e)) = of_int e"
proof (cases "e = 0")
  case True
  then show ?thesis by (simp add: float_round_def float_val_def)
next
  case False
  define x :: rat where "x = of_int e"
  have x0: "x \<noteq> 0" using False by (simp add: x_def)
  define k where "k = float_exponent x"
  define s where "s = k - 52"
  have "power_int 2 k \<le> \<bar>x\<bar>" using float_exponent_bounds [OF x0] by (simp add: k_def)
  also have "\<bar>x\<bar> < 2 ^ 53"
  proof -
    have "(of_int \<bar>e\<bar> :: rat) < of_int (2 ^ 53)" using assms by (simp only: of_int_less_iff)
    then show ?thesis by (simp add: x_def)
  qed
  finally have lt: "power_int (2::rat) k < 2 ^ 53" .
  have "\<not> 53 \<le> k"
  proof
    assume "53 \<le> k"
    then have "power_int (2::rat) 53 \<le> power_int 2 k"
      by (rule power_int_increasing) simp
    with lt show False by simp
  qed
  then have s: "s \<le> 0" by (simp add: s_def)
  have "x / power_int 2 s = x * power_int 2 (- s)" by (simp add: power_int_minus field_simps)
  also have "\<dots> = of_int (e * 2 ^ nat (- s))" using s by (simp add: x_def power_int_def)
  finally have z: "x / power_int 2 s = of_int (e * 2 ^ nat (- s))" .
  have "float_val (float_round x) = of_int (round_half_even (x / power_int 2 s)) * power_int 2 s"
    using x0 by (simp add: float_round_def float_val_def Let_def k_def s_def)
  also have "\<dots> = (x / power_int 2 s) * power_int 2 s"
    by (simp only: z round_half_even_of_int)
  also have "\<dots> = x" by simp
  finally show ?thesis by (simp add: x_def)
qed

subsection \<open>The Decimal of a float has the float's value\<close>

lemma lowest_terms_val:
  "lowest_terms m k = (n, j) \<Longrightarrow> (of_int n :: rat) / 2 ^ j = of_int m / 2 ^ k"
proof (induction m k rule: lowest_terms.induct)
  case (1 m)
  then show ?case by simp
next
  case (2 m k)
  show ?case
  proof (cases "even m")
    case True
    then have "(of_int m :: rat) = 2 * of_int (m div 2)"
      by (metis of_int_mult of_int_numeral dvd_mult_div_cancel)
    moreover have "(of_int n :: rat) / 2 ^ j = of_int (m div 2) / 2 ^ k"
      using 2 True by simp
    ultimately show ?thesis by simp
  next
    case False
    then show ?thesis using 2 by simp
  qed
qed

lemma dec_val_of_float: "dec_val (dec_of_float x) = float_val x"
proof (cases "0 \<le> binary_exponent x")
  case True
  then show ?thesis
    by (simp add: dec_of_float_def dec_val_def float_val_def power_int_def)
next
  case False
  obtain n j where nj: "lowest_terms (mantissa x) (nat (- binary_exponent x)) = (n, j)"
    by (cases "lowest_terms (mantissa x) (nat (- binary_exponent x))")
  have "dec_val (dec_of_float x) = of_int n * 5 ^ j * power_int 10 (- int j)"
    using False by (simp add: dec_of_float_def nj dec_val_def)
  also have "\<dots> = of_int n * 5 ^ j / (10 ^ j)"
    by (simp add: power_int_minus field_simps)
  also have "(10::rat) ^ j = 5 ^ j * 2 ^ j"
    by (simp add: power_mult_distrib [symmetric])
  also have "of_int n * 5 ^ j / (5 ^ j * 2 ^ j) = (of_int n :: rat) / 2 ^ j"
    by simp
  also have "\<dots> = of_int (mantissa x) / 2 ^ nat (- binary_exponent x)"
    by (rule lowest_terms_val [OF nj])
  also have "\<dots> = float_val x"
    using False by (simp add: float_val_def power_int_def field_simps power_inverse)
  finally show ?thesis .
qed

lemma literal_val: "float_val literal_4_184 = 4710765210229539 / 1125899906842624"
  by code_simp

subsection \<open>The float product rounds like the exact product\<close>

text \<open>
  The exact product \<open>e * 4.184\<close>, taken in hundredths, is a whole number of tenths whose last
  digit is even, so it is at least a tenth away from every rounding boundary: a value within
  a tenth of it rounds to the same integer.
\<close>

lemma round_tenths:
  fixes t :: int and z :: rat
  assumes ev: "even t"
      and close: "\<bar>z - of_int t / 10\<bar> < 1 / 10"
  shows "round_half_even z = round_half_even (of_int t / 10)"
proof -
  define q where "q = t div 10"
  define r where "r = t mod 10"
  have t: "t = 10 * q + r" by (simp add: q_def r_def)
  have r: "r = 0 \<or> r = 2 \<or> r = 4 \<or> r = 6 \<or> r = 8"
    using ev unfolding r_def by presburger
  define n where "n = (if r \<le> 4 then q else q + 1)"
  have u: "(of_int t :: rat) / 10 = of_int q + of_int r / 10"
    by (simp add: t)
  have zlo: "of_int q + of_int r / 10 - 1 / 10 < z" and zhi: "z < of_int q + of_int r / 10 + 1 / 10"
    using close unfolding u by linarith+
  have "round_half_even z = n"
  proof (rule round_half_even_unique)
    show "of_int n - 1 / 2 < z" using r zlo by (auto simp: n_def)
    show "z < of_int n + 1 / 2" using r zhi by (auto simp: n_def)
  qed
  moreover have "round_half_even (of_int t / 10) = n"
  proof (rule round_half_even_unique)
    show "of_int n - 1 / 2 < (of_int t :: rat) / 10" unfolding u using r by (auto simp: n_def)
    show "(of_int t :: rat) / 10 < of_int n + 1 / 2" unfolding u using r by (auto simp: n_def)
  qed
  ultimately show ?thesis by simp
qed

lemma energy_kilojoule_in_range:
  assumes e0: "e \<noteq> 0" and lo: "- (2 ^ 31) \<le> e" and hi: "e < 2 ^ 31"
      and en: "energy self = Some e"
  shows "energy_kilojoule self = Inr (Decimal (round_half_even (of_int (e * 4184) / 10)) (- 2))"
proof -
  define E :: rat where "E = of_int e"
  define cv :: rat where "cv = 4710765210229539 / 1125899906842624"
  have Eabs: "\<bar>E\<bar> \<le> 2147483648"
  proof -
    have "\<bar>e\<bar> \<le> 2147483648" using lo hi by simp
    then have "(of_int \<bar>e\<bar> :: rat) \<le> of_int 2147483648" by (simp only: of_int_le_iff)
    then show ?thesis by (simp add: E_def)
  qed
  have E0: "E \<noteq> 0" using e0 by (simp add: E_def)
  \<comment> \<open>the conversion of the int is exact\<close>
  have xv: "float_val (float_round (of_int e)) = E"
    unfolding E_def by (rule float_round_int) (use lo hi in simp)
  have x_ok: "\<not> float_overflows (float_round (of_int e))"
    using Eabs by (simp add: float_overflows_def xv)
  have fi: "float_of_int e = Inr (float_round (of_int e))"
    using x_ok by (simp add: float_of_int_def Let_def)
  \<comment> \<open>the product and its rounding error\<close>
  define p where "p = E * cv"
  define y where "y = float_round p"
  define d1 where "d1 = float_val y - p"
  define d2 where "d2 = E * (cv - 4184 / 1000)"
  have p0: "p \<noteq> 0" using E0 by (simp add: p_def cv_def)
  have "\<bar>p\<bar> = \<bar>E\<bar> * (4710765210229539 / 1125899906842624)"
    by (simp add: p_def cv_def abs_mult)
  then have pabs: "\<bar>p\<bar> \<le> 9000000000" using Eabs by linarith
  have "\<bar>d1\<bar> \<le> \<bar>p\<bar> / 2 ^ 53"
    unfolding d1_def y_def by (rule float_round_error [OF p0])
  then have d1: "\<bar>d1\<bar> \<le> 1 / 100000" using pabs by simp
  have "\<bar>d2\<bar> = \<bar>E\<bar> * (4710765210229539 / 1125899906842624 - 4184 / 1000)"
    by (simp add: d2_def cv_def abs_mult)
  then have d2: "\<bar>d2\<bar> \<le> 1 / 100000" using Eabs by simp
  have fy: "float_val y = p + d1" by (simp add: d1_def)
  have y_ok: "\<not> float_overflows y"
  proof -
    have "\<bar>float_val y\<bar> \<le> 9000000001" using pabs d1 fy by linarith
    then show ?thesis by (simp add: float_overflows_def)
  qed
  have fm: "float_mul (float_round (of_int e)) literal_4_184 = Some y"
    unfolding float_mul_def xv literal_val Let_def
    using y_ok by (simp add: y_def p_def cv_def)
  \<comment> \<open>the value that is quantized\<close>
  define z where "z = float_val y * 100"
  have close: "\<bar>z - of_int (e * 4184) / 10\<bar> < 1 / 10"
  proof -
    have "z - of_int (e * 4184) / 10 = 100 * d1 + 100 * d2"
      by (simp add: z_def fy p_def d2_def E_def algebra_simps)
    then show ?thesis using d1 d2 by linarith
  qed
  define n where "n = round_half_even (of_int (e * 4184) / 10)"
  have zn: "round_half_even z = n"
    unfolding n_def by (rule round_tenths [OF _ close]) simp
  have nabs: "\<bar>n\<bar> < 10 ^ prec"
  proof -
    have "\<bar>(of_int n :: rat) - of_int (e * 4184) / 10\<bar> \<le> 1 / 2"
      unfolding n_def by (rule round_half_even_near)
    moreover have "\<bar>(of_int (e * 4184) :: rat) / 10\<bar> = \<bar>E\<bar> * (4184 / 10)"
      by (simp add: E_def abs_mult)
    ultimately have "\<bar>of_int n :: rat\<bar> \<le> 2147483648 * (4184 / 10) + 1 / 2"
      using Eabs by linarith
    then have "(of_int \<bar>n\<bar> :: rat) < of_int (10 ^ prec)" by (simp add: prec_def)
    then show ?thesis by (simp only: of_int_less_iff)
  qed
  have "quantize (dec_of_float y) TWOPLACES = Inr (Decimal n (- 2))"
    using nabs zn by (simp add: quantize_def TWOPLACES_def dec_val_of_float z_def Let_def
        power_int_minus)
  then show ?thesis
    using e0 by (simp add: energy_kilojoule_def en fi fm n_def)
qed

lemma exact_product_quantized:
  assumes lo: "- (2 ^ 31) \<le> e" and hi: "e < 2 ^ 31"
  shows "quantize (dec_mul (dec_of_int e) (Decimal 4184 (- 3))) TWOPLACES =
         Inr (Decimal (round_half_even (of_int (e * 4184) / 10)) (- 2))"
proof -
  define n where "n = round_half_even (of_int (e * 4184) / 10)"
  have "\<bar>e\<bar> \<le> 2147483648" using lo hi by simp
  then have "(of_int \<bar>e\<bar> :: rat) \<le> of_int 2147483648" by (simp only: of_int_le_iff)
  then have Eabs: "\<bar>of_int e :: rat\<bar> \<le> 2147483648" by simp
  have "\<bar>(of_int n :: rat) - of_int (e * 4184) / 10\<bar> \<le> 1 / 2"
    unfolding n_def by (rule round_half_even_near)
  moreover have "\<bar>(of_int (e * 4184) :: rat) / 10\<bar> = \<bar>of_int e\<bar> * (4184 / 10)"
    by (simp add: abs_mult)
  ultimately have "\<bar>of_int n :: rat\<bar> \<le> 2147483648 * (4184 / 10) + 1 / 2"
    using Eabs by linarith
  then have "(of_int \<bar>n\<bar> :: rat) < of_int (10 ^ prec)" by (simp add: prec_def)
  then have nabs: "\<bar>n\<bar> < 10 ^ prec" by (simp only: of_int_less_iff)
  have v: "dec_val (dec_mul (dec_of_int e) (Decimal 4184 (- 3)))
             / power_int 10 (exponent TWOPLACES) = of_int (e * 4184) / 10"
    by (simp add: dec_val_mul dec_val_of_int TWOPLACES_def)
       (simp add: dec_val_def power_int_minus)
  show ?thesis
    unfolding quantize_def Let_def v n_def [symmetric]
    using nabs by (simp add: TWOPLACES_def)
qed

text \<open>
  C10. With an absent or zero energy the property returns 0. With any other energy that an
  IntegerField can store (32 bits) it raises nothing and returns what quantizing the exact
  product of the energy and 4.184 to two decimal places gives, a Decimal with exponent -2:
  the rounding of the float product never changes the second decimal place.
\<close>

theorem energy_kilojoule_quantized:
  "(energy self = None \<or> energy self = Some 0 \<longrightarrow>
      energy_kilojoule self = Inr (dec_of_int 0))
   \<and> (\<forall>e. energy self = Some e \<and> e \<noteq> 0 \<and> - (2 ^ 31) \<le> e \<and> e < 2 ^ 31 \<longrightarrow>
        energy_kilojoule self =
          quantize (dec_mul (dec_of_int e) (Decimal 4184 (- 3))) TWOPLACES
        \<and> (\<exists>c. energy_kilojoule self = Inr (Decimal c (- 2))))"
proof (intro conjI allI impI)
  assume "energy self = None \<or> energy self = Some 0"
  then show "energy_kilojoule self = Inr (dec_of_int 0)"
    by (auto simp: energy_kilojoule_def)
next
  fix e
  assume a: "energy self = Some e \<and> e \<noteq> 0 \<and> - (2 ^ 31) \<le> e \<and> e < 2 ^ 31"
  then have k: "energy_kilojoule self =
      Inr (Decimal (round_half_even (of_int (e * 4184) / 10)) (- 2))"
    by (intro energy_kilojoule_in_range) simp_all
  show "energy_kilojoule self =
          quantize (dec_mul (dec_of_int e) (Decimal 4184 (- 3))) TWOPLACES"
    using a by (simp only: k exact_product_quantized)
  show "\<exists>c. energy_kilojoule self = Inr (Decimal c (- 2))"
    using k by blast
qed

theorem energy_kilojoule_quantized_witness:
  "energy blank_ingredient = None
   \<and> energy_kilojoule blank_ingredient = Inr (Decimal 0 0)
   \<and> energy (example_macros\<lparr>energy := Some 100\<rparr>) = Some 100
   \<and> energy_kilojoule (example_macros\<lparr>energy := Some 100\<rparr>) = Inr (Decimal 41840 (- 2))"
proof -
  have q: "quantize (dec_mul (dec_of_int 100) (Decimal 4184 (- 3))) TWOPLACES =
           Inr (Decimal 41840 (- 2))"
    by code_simp
  have n: "energy blank_ingredient = None" by (simp add: blank_ingredient_def)
  from energy_kilojoule_quantized [of blank_ingredient] n
  have z: "energy_kilojoule blank_ingredient = Inr (Decimal 0 0)"
    by (simp add: dec_of_int_def)
  from energy_kilojoule_quantized [of "example_macros\<lparr>energy := Some 100\<rparr>"]
  have "energy_kilojoule (example_macros\<lparr>energy := Some 100\<rparr>) =
          quantize (dec_mul (dec_of_int 100) (Decimal 4184 (- 3))) TWOPLACES"
    by simp
  with q n z show ?thesis by simp
qed

text \<open>
  Beyond what an IntegerField stores the property can raise: for the energy \<open>10^26\<close> the
  quantized result would need more than 28 digits.
\<close>

lemma energy_kilojoule_huge:
  "energy_kilojoule (blank_ingredient\<lparr>energy := Some (10 ^ 26)\<rparr>) = Inl InvalidOperation"
  by code_simp

end
